theory Spec2Isabelle
  imports Main
begin

section \<open>Build-time failures\<close>

text \<open>
  Every failure of the composition step is a configuration-time failure: the constructor
  that meets it throws, and no resource declaration is produced. The model returns the
  failure as a value.
\<close>

datatype error =
    ENOENT string
  | InvalidCidr string
  | InvalidCidrRange nat
  | ExceedsRemainingSpace nat

section \<open>Network Topology Unit (lib/vpc-stack.ts)\<close>

subsection \<open>Properties handed to the network construct\<close>

datatype SubnetType = PUBLIC | PRIVATE_WITH_NAT | PRIVATE_ISOLATED

record SubnetConfiguration =
  name :: string
  subnetType :: SubnetType
  cidrMask :: nat

record VpcProps =
  cidr :: string
  enableDnsHostnames :: bool
  enableDnsSupport :: bool
  natGateways :: nat
  maxAzs :: nat
  subnetConfiguration :: "SubnetConfiguration list"

subsection \<open>Address blocks\<close>

record CidrBlock =
  minAddress :: nat
  mask :: nat

definition networkSize :: "nat \<Rightarrow> nat" where
  "networkSize m = 2 ^ (32 - m)"

definition maxAddress :: "CidrBlock \<Rightarrow> nat" where
  "maxAddress b = minAddress b + networkSize (mask b) - 1"

definition containsCidr :: "CidrBlock \<Rightarrow> CidrBlock \<Rightarrow> bool" where
  "containsCidr outer inner \<longleftrightarrow>
     minAddress outer \<le> minAddress inner \<and> maxAddress inner \<le> maxAddress outer"

definition disjointCidr :: "CidrBlock \<Rightarrow> CidrBlock \<Rightarrow> bool" where
  "disjointCidr a b \<longleftrightarrow> maxAddress a < minAddress b \<or> maxAddress b < minAddress a"

fun pairwiseDisjoint :: "CidrBlock list \<Rightarrow> bool" where
  "pairwiseDisjoint [] = True"
| "pairwiseDisjoint (b # bs) = (list_all (disjointCidr b) bs \<and> pairwiseDisjoint bs)"

subsection \<open>Reading the dotted notation of an address block\<close>

fun digitValue :: "char \<Rightarrow> nat option" where
  "digitValue c =
     (let n = (of_char c :: nat) in if 48 \<le> n \<and> n \<le> 57 then Some (n - 48) else None)"

fun parseDigits :: "nat \<Rightarrow> string \<Rightarrow> nat option" where
  "parseDigits acc [] = Some acc"
| "parseDigits acc (c # cs) =
     (case digitValue c of None \<Rightarrow> None | Some d \<Rightarrow> parseDigits (acc * 10 + d) cs)"

definition parseInt :: "string \<Rightarrow> nat option" where
  "parseInt s = (if s = [] then None else parseDigits 0 s)"

fun split :: "char \<Rightarrow> string \<Rightarrow> string list" where
  "split sep [] = [[]]"
| "split sep (c # cs) =
     (if c = sep then [] # split sep cs
      else (case split sep cs of [] \<Rightarrow> [[c]] | w # ws \<Rightarrow> (c # w) # ws))"

definition ipToNum :: "string \<Rightarrow> nat option" where
  "ipToNum s =
     (case map parseInt (split (CHR ''.'') s) of
        [Some a, Some b, Some c, Some d] \<Rightarrow>
          (if a < 256 \<and> b < 256 \<and> c < 256 \<and> d < 256
           then Some (((a * 256 + b) * 256 + c) * 256 + d) else None)
      | _ \<Rightarrow> None)"

definition parseCidr :: "string \<Rightarrow> CidrBlock option" where
  "parseCidr s =
     (case split (CHR ''/'') s of
        [ip, m] \<Rightarrow>
          (case (ipToNum ip, parseInt m) of
             (Some a, Some k) \<Rightarrow>
               (if k \<le> 32
                then Some \<lparr>minAddress = a - a mod networkSize k, mask = k\<rparr>
                else None)
           | _ \<Rightarrow> None)
      | _ \<Rightarrow> None)"

subsection \<open>The network handle and its subnets\<close>

record Subnet =
  groupName :: string
  tier :: SubnetType
  availabilityZone :: string
  block :: CidrBlock

record IVpc =
  vpcCidrBlock :: CidrBlock
  dnsHostnames :: bool
  dnsSupport :: bool
  natGatewayCount :: nat
  availabilityZones :: "string list"
  subnets :: "Subnet list"

text \<open>
  Modelled from the spec: the subnet allocation of the provisioning SDK's network
  construct (\<^verbatim>\<open>ec2.Vpc\<close>), an external dependency whose code is not part of the
  repository. Following the contract of the Network Topology Unit, every configured tier
  is replicated across up to the requested number of zones, each subnet takes the next
  block of its mask size inside the parent block (starting on a multiple of its size),
  and the request fails when the subnet math overflows the parent address block.
  \<open>addSubnet\<close> returns the allocated block together with the next free address.
\<close>

definition addSubnet :: "CidrBlock \<Rightarrow> nat \<Rightarrow> nat \<Rightarrow> error + (CidrBlock \<times> nat)" where
  "addSubnet network nextAvailableIp m =
     (if 32 < m then Inl (InvalidCidrRange m)
      else
        let size = networkSize m;
            start = ((nextAvailableIp + size - 1) div size) * size
        in if maxAddress network < start + size - 1 then Inl (ExceedsRemainingSpace m)
           else Inr (\<lparr>minAddress = start, mask = m\<rparr>, start + size))"

fun createSubnetResources ::
  "CidrBlock \<Rightarrow> SubnetConfiguration \<Rightarrow> string list \<Rightarrow> nat \<Rightarrow> error + (Subnet list \<times> nat)"
where
  "createSubnetResources network subnetConfig [] nextAvailableIp = Inr ([], nextAvailableIp)"
| "createSubnetResources network subnetConfig (zone # zones) nextAvailableIp =
     (case addSubnet network nextAvailableIp (cidrMask subnetConfig) of
        Inl e \<Rightarrow> Inl e
      | Inr (b, next1) \<Rightarrow>
          (case createSubnetResources network subnetConfig zones next1 of
             Inl e \<Rightarrow> Inl e
           | Inr (rest, next2) \<Rightarrow>
               Inr (\<lparr>groupName = name subnetConfig, tier = subnetType subnetConfig,
                     availabilityZone = zone, block = b\<rparr> # rest, next2)))"

fun createSubnets ::
  "CidrBlock \<Rightarrow> SubnetConfiguration list \<Rightarrow> string list \<Rightarrow> nat \<Rightarrow> error + Subnet list"
where
  "createSubnets network [] zones nextAvailableIp = Inr []"
| "createSubnets network (subnetConfig # configs) zones nextAvailableIp =
     (case createSubnetResources network subnetConfig zones nextAvailableIp of
        Inl e \<Rightarrow> Inl e
      | Inr (created, next1) \<Rightarrow>
          (case createSubnets network configs zones next1 of
             Inl e \<Rightarrow> Inl e
           | Inr rest \<Rightarrow> Inr (created @ rest)))"

text \<open>
  The zones the region offers to the stack are an input of the construct (\<open>stackZones\<close>);
  the network uses the first \<open>maxAzs\<close> of them.
\<close>

definition Vpc :: "string list \<Rightarrow> VpcProps \<Rightarrow> error + IVpc" where
  "Vpc stackZones props =
     (case parseCidr (cidr props) of
        None \<Rightarrow> Inl (InvalidCidr (cidr props))
      | Some network \<Rightarrow>
          (let zones = take (maxAzs props) stackZones in
           case createSubnets network (subnetConfiguration props) zones (minAddress network) of
             Inl e \<Rightarrow> Inl e
           | Inr created \<Rightarrow>
               Inr \<lparr>vpcCidrBlock = network,
                    dnsHostnames = enableDnsHostnames props,
                    dnsSupport = enableDnsSupport props,
                    natGatewayCount = natGateways props,
                    availabilityZones = zones,
                    subnets = created\<rparr>))"

subsection \<open>The unit itself\<close>

record StackProps =
  terminationProtection :: "bool option"

record Stack =
  stackId :: string
  stackTerminationProtection :: bool
  stackTags :: "(string \<times> string) list"

record VpcStack = Stack +
  vpc :: IVpc

definition vpcProps :: VpcProps where
  "vpcProps =
     \<lparr>cidr = ''10.10.0.0/24'',
      enableDnsHostnames = True,
      enableDnsSupport = True,
      natGateways = 1,
      maxAzs = 2,
      subnetConfiguration =
        [\<lparr>name = ''Public'', subnetType = PUBLIC, cidrMask = 28\<rparr>,
         \<lparr>name = ''Private'', subnetType = PRIVATE_WITH_NAT, cidrMask = 28\<rparr>,
         \<lparr>name = ''Isolate'', subnetType = PRIVATE_ISOLATED, cidrMask = 28\<rparr>]\<rparr>"

definition VpcStack :: "string list \<Rightarrow> string \<Rightarrow> StackProps \<Rightarrow> error + VpcStack" where
  "VpcStack stackZones id' props =
     (case Vpc stackZones vpcProps of
        Inl e \<Rightarrow> Inl e
      | Inr v \<Rightarrow>
          Inr \<lparr>stackId = id',
               stackTerminationProtection =
                 (case terminationProtection props of None \<Rightarrow> False | Some b \<Rightarrow> b),
               stackTags = [],
               vpc = v\<rparr>)"

section \<open>Constructs of the provisioning SDK used by the Data Cluster Unit\<close>

text \<open>
  A resource declaration is an immutable value: the properties the source passes to the
  construct, together with the identifier under which the construct is registered in its
  unit. Attributes that are only known at deployment (a boundary's identity, a
  credential's resource name) are references to the declaring construct.
\<close>

datatype Token = Ref string | GetAtt string string

subsection \<open>Time spans\<close>

datatype TimeUnit = Milliseconds | Seconds | Minutes | Hours | Days

record Duration =
  amount :: nat
  timeUnit :: TimeUnit

definition Duration_days :: "nat \<Rightarrow> Duration" where
  "Duration_days n = \<lparr>amount = n, timeUnit = Days\<rparr>"

definition Duration_minutes :: "nat \<Rightarrow> Duration" where
  "Duration_minutes n = \<lparr>amount = n, timeUnit = Minutes\<rparr>"

fun inMillis :: "TimeUnit \<Rightarrow> nat" where
  "inMillis Milliseconds = 1"
| "inMillis Seconds = 1000"
| "inMillis Minutes = 60000"
| "inMillis Hours = 3600000"
| "inMillis Days = 86400000"

definition toMilliseconds :: "Duration \<Rightarrow> nat" where
  "toMilliseconds d = amount d * inMillis (timeUnit d)"

subsection \<open>Security boundaries\<close>

datatype Peer =
    Peer_anyIpv4
  | Peer_anyIpv6
  | Peer_ipv4 string
  | Peer_ipv6 string
  | Peer_prefixList string
  | Peer_securityGroupId Token

text \<open>
  A port number is a literal, or (\<open>Port_tcpToken\<close>) a reference to a number that is
  known only at deployment, such as the endpoint port of a cluster.
\<close>

datatype Port =
    Port_tcp nat
  | Port_tcpToken Token
  | Port_udp nat
  | Port_tcpRange nat nat
  | Port_allTcp
  | Port_allTraffic

record IngressRule =
  peer :: Peer
  connection :: Port
  ruleDescription :: string

record SecurityGroup =
  sgNodeId :: string
  sgVpc :: IVpc
  securityGroupName :: string
  sgDescription :: string
  allowAllOutbound :: bool
  ingressRules :: "IngressRule list"

definition securityGroupId :: "SecurityGroup \<Rightarrow> Token" where
  "securityGroupId sg = GetAtt (sgNodeId sg) ''GroupId''"

fun unrestrictedPeer :: "Peer \<Rightarrow> bool" where
  "unrestrictedPeer Peer_anyIpv4 = True"
| "unrestrictedPeer Peer_anyIpv6 = True"
| "unrestrictedPeer (Peer_ipv4 cidrIp) = (cidrIp = ''0.0.0.0/0'')"
| "unrestrictedPeer (Peer_ipv6 cidrIp) = (cidrIp = ''::/0'')"
| "unrestrictedPeer (Peer_prefixList _) = False"
| "unrestrictedPeer (Peer_securityGroupId _) = False"

text \<open>
  Modelled from the spec: \<^verbatim>\<open>addIngressRule\<close> of the SDK's security group, whose code
  is not part of the repository. A security boundary is a named allow-list of inbound
  rules (source, port, protocol) that is mutated only by adding rules; a rule whose
  source and port the list already holds is not added a second time.
\<close>

definition hasIngressRule :: "SecurityGroup \<Rightarrow> Peer \<Rightarrow> Port \<Rightarrow> bool" where
  "hasIngressRule sg p c = list_ex (\<lambda>r. peer r = p \<and> connection r = c) (ingressRules sg)"

definition addIngressRule :: "SecurityGroup \<Rightarrow> Peer \<Rightarrow> Port \<Rightarrow> string \<Rightarrow> SecurityGroup" where
  "addIngressRule sg p c d =
     (if hasIngressRule sg p c then sg
      else sg\<lparr>ingressRules :=
                ingressRules sg @ [\<lparr>peer = p, connection = c, ruleDescription = d\<rparr>]\<rparr>)"

text \<open>
  Boundaries are objects that constructs share by reference: a construct declared later
  may add a rule to a boundary that an earlier construct already holds. \<open>Boundaries\<close>
  records, by identifier, the present state of every boundary that was changed after
  its declaration; \<open>deref\<close> reads the present state of a boundary.
\<close>

type_synonym Boundaries = "string \<rightharpoonup> SecurityGroup"

definition deref :: "Boundaries \<Rightarrow> SecurityGroup \<Rightarrow> SecurityGroup" where
  "deref h sg = (case h (sgNodeId sg) of None \<Rightarrow> sg | Some now \<Rightarrow> now)"

subsection \<open>Selecting subnets of a network\<close>

record SubnetSelection =
  onePerAz :: bool
  selSubnetType :: SubnetType

fun retainOnePerAz :: "Subnet list \<Rightarrow> string list \<Rightarrow> Subnet list" where
  "retainOnePerAz [] azsSeen = []"
| "retainOnePerAz (s # ss) azsSeen =
     (if availabilityZone s \<in> set azsSeen then retainOnePerAz ss azsSeen
      else s # retainOnePerAz ss (availabilityZone s # azsSeen))"

text \<open>
  Modelled from the spec: \<^verbatim>\<open>selectSubnets\<close> of the network handle, whose code is not
  part of the repository. A selection names a reachability class and returns the
  network's subnets of that tier; with \<open>onePerAz\<close> it keeps one subnet per zone (the
  first one of each zone).
\<close>

definition selectSubnets :: "IVpc \<Rightarrow> SubnetSelection \<Rightarrow> Subnet list" where
  "selectSubnets v selection =
     (let byType = filter (\<lambda>s. tier s = selSubnetType selection) (subnets v)
      in if onePerAz selection then retainOnePerAz byType [] else byType)"

subsection \<open>Credential objects\<close>

record SecretStringGenerator =
  excludeCharacters :: "string option"
  excludeLowercase :: "bool option"
  excludeNumbers :: "bool option"
  excludePunctuation :: "bool option"
  excludeUppercase :: "bool option"
  generateStringKey :: "string option"
  includeSpace :: "bool option"
  passwordLength :: "nat option"
  requireEachIncludedType :: "bool option"
  secretStringTemplate :: "string option"

datatype SecretStringValueBeta1 = fromUnsafePlaintext string

record Secret =
  secretNodeId :: string
  secretName :: string
  generateSecretString :: "SecretStringGenerator option"
  secretStringBeta1 :: "SecretStringValueBeta1 option"

definition secretArn :: "Secret \<Rightarrow> Token" where
  "secretArn s = Ref (secretNodeId s)"

subsection \<open>Values generated under a policy\<close>

datatype CharClass = Lowercase | Uppercase | Numbers | Punctuation | Space

fun classChars :: "CharClass \<Rightarrow> string" where
  "classChars Lowercase = ''abcdefghijklmnopqrstuvwxyz''"
| "classChars Uppercase = ''ABCDEFGHIJKLMNOPQRSTUVWXYZ''"
| "classChars Numbers = ''0123456789''"
| "classChars Punctuation =
     ''!'' @ [CHR 0x22] @ ''#$%&'' @ [CHR 0x27] @ ''()*+,-./:;<=>?@['' @ [CHR 0x5C] @
     '']^_'' @ [CHR 0x60] @ ''{|}~''"
| "classChars Space = '' ''"

definition flagOr :: "bool \<Rightarrow> bool option \<Rightarrow> bool" where
  "flagOr d f = (case f of None \<Rightarrow> d | Some b \<Rightarrow> b)"

definition includedTypes :: "SecretStringGenerator \<Rightarrow> CharClass list" where
  "includedTypes g =
     (if flagOr False (excludeLowercase g) then [] else [Lowercase]) @
     (if flagOr False (excludeUppercase g) then [] else [Uppercase]) @
     (if flagOr False (excludeNumbers g) then [] else [Numbers]) @
     (if flagOr False (excludePunctuation g) then [] else [Punctuation]) @
     (if flagOr False (includeSpace g) then [Space] else [])"

definition excludedChars :: "SecretStringGenerator \<Rightarrow> string" where
  "excludedChars g = (case excludeCharacters g of None \<Rightarrow> [] | Some cs \<Rightarrow> cs)"

definition allowedChar :: "SecretStringGenerator \<Rightarrow> char \<Rightarrow> bool" where
  "allowedChar g c \<longleftrightarrow>
     list_ex (\<lambda>k. c \<in> set (classChars k)) (includedTypes g) \<and> c \<notin> set (excludedChars g)"

text \<open>
  Modelled from the spec: the password generator of the provider's secret-management
  service, which runs outside the repository. A value generated under a policy has the
  policy's length, consists of characters of the included classes none of which is an
  excluded character, and, when every included class is required, holds at least one
  character of each included class. A flag the policy leaves out takes the service's
  default: the four printable classes are included, the space is not, every included
  class is required, and the length is 32.
\<close>

definition generatedUnder :: "SecretStringGenerator \<Rightarrow> string \<Rightarrow> bool" where
  "generatedUnder g v \<longleftrightarrow>
     length v = (case passwordLength g of None \<Rightarrow> 32 | Some n \<Rightarrow> n) \<and>
     list_all (allowedChar g) v \<and>
     (flagOr True (requireEachIncludedType g) \<longrightarrow>
        list_all (\<lambda>k. list_ex (\<lambda>c. c \<in> set (classChars k)) v) (includedTypes g))"

subsection \<open>Parameter sets, subnet groups and the relational cluster\<close>

datatype AuroraPostgresEngineVersion = VER_13_4

datatype DatabaseClusterEngine = auroraPostgres AuroraPostgresEngineVersion

record ParameterGroup =
  pgNodeId :: string
  pgEngine :: DatabaseClusterEngine
  pgDescription :: string
  parameters :: "(string \<times> string) list"

record SubnetGroup =
  sngNodeId :: string
  sngDescription :: string
  sngVpc :: IVpc
  subnetGroupName :: string
  sngVpcSubnets :: "Subnet list"

datatype InstanceClass = BURSTABLE3

datatype InstanceSize = MEDIUM

datatype InstanceType = InstanceType string

fun InstanceType_of :: "InstanceClass \<Rightarrow> InstanceSize \<Rightarrow> InstanceType" where
  "InstanceType_of BURSTABLE3 MEDIUM = InstanceType ''t3.medium''"

datatype PerformanceInsightRetention = DEFAULT | LONG_TERM

datatype RetentionDays = ONE_YEAR

record InstanceProps =
  ipVpc :: IVpc
  allowMajorVersionUpgrade :: bool
  autoMinorVersionUpgrade :: bool
  deleteAutomatedBackups :: bool
  enablePerformanceInsights :: bool
  instanceType :: InstanceType
  ipParameterGroup :: ParameterGroup
  performanceInsightRetention :: PerformanceInsightRetention
  publiclyAccessible :: bool
  securityGroups :: "SecurityGroup list"

record BackupProps =
  retention :: Duration
  preferredWindow :: string

datatype Credentials = fromSecret Secret

record DatabaseCluster =
  dbcNodeId :: string
  engine :: DatabaseClusterEngine
  instanceProps :: InstanceProps
  backup :: BackupProps
  cloudwatchLogsExports :: "string list"
  cloudwatchLogsRetention :: RetentionDays
  clusterIdentifier :: string
  copyTagsToSnapshot :: bool
  credentials :: Credentials
  defaultDatabaseName :: string
  deletionProtection :: bool
  iamAuthentication :: bool
  instanceIdentifierBase :: string
  instances :: nat
  monitoringInterval :: Duration
  parameterGroup :: ParameterGroup
  preferredMaintenanceWindow :: string
  storageEncrypted :: bool
  subnetGroup :: SubnetGroup

subsection \<open>Rotation jobs\<close>

datatype SecretRotationApplication =
    POSTGRES_ROTATION_SINGLE_USER
  | POSTGRES_ROTATION_MULTI_USER

record SecretRotation =
  rotNodeId :: string
  application :: SecretRotationApplication
  secret :: Secret
  target :: DatabaseCluster
  rotVpc :: IVpc
  automaticallyAfter :: Duration
  rotExcludeCharacters :: string
  masterSecret :: "Secret option"
  rotSecurityGroup :: SecurityGroup
  rotVpcSubnets :: "Subnet list"

definition resolveCluster :: "Boundaries \<Rightarrow> DatabaseCluster \<Rightarrow> DatabaseCluster" where
  "resolveCluster h cl =
     cl\<lparr>instanceProps := (instanceProps cl)
          \<lparr>securityGroups := map (deref h) (securityGroups (instanceProps cl))\<rparr>\<rparr>"

definition defaultPort :: "DatabaseCluster \<Rightarrow> Port" where
  "defaultPort cl = Port_tcpToken (GetAtt (dbcNodeId cl) ''Endpoint.Port'')"

text \<open>
  Modelled from the spec: the constructor of the SDK's rotation construct
  (\<^verbatim>\<open>secretsmanager.SecretRotation\<close>), whose code is not part of the repository. A
  rotation job updates the credential inside its target, so the boundary it runs under
  is granted access to the database: on construction the job adds, to every boundary of
  its target, an inbound rule whose source is the job's own boundary and whose port is
  the target's default port, the endpoint port of the cluster
  (\<^verbatim>\<open>target.connections.allowDefaultPortFrom(securityGroup)\<close>).
\<close>

definition allowDefaultPortFrom ::
  "Boundaries \<Rightarrow> DatabaseCluster \<Rightarrow> SecurityGroup \<Rightarrow> Boundaries"
where
  "allowDefaultPortFrom h cl other =
     fold (\<lambda>sg h'. h'(sgNodeId sg \<mapsto>
              addIngressRule (deref h' sg)
                (Peer_securityGroupId (securityGroupId other))
                (defaultPort cl)
                (''from '' @ sgNodeId other @ '':{IndirectPort}'')))
       (securityGroups (instanceProps cl)) h"

definition SecretRotation_new :: "Boundaries \<Rightarrow> SecretRotation \<Rightarrow> Boundaries" where
  "SecretRotation_new h job = allowDefaultPortFrom h (target job) (rotSecurityGroup job)"

subsection \<open>Access role and administrative node\<close>

datatype Effect = ALLOW | DENY

record PolicyStatement =
  effect :: Effect
  resources :: "Token list"
  actions :: "string list"

datatype ManagedPolicy =
    fromAwsManagedPolicyName string
  | ManagedPolicy string "PolicyStatement list"

datatype Principal = ServicePrincipal string

record Role =
  roleNodeId :: string
  assumedBy :: Principal
  managedPolicies :: "ManagedPolicy list"

datatype EbsDeviceVolumeType = GP3

record BlockDeviceVolume =
  volumeSize :: nat
  encrypted :: bool
  volumeType :: EbsDeviceVolumeType

definition ebs :: "nat \<Rightarrow> bool \<Rightarrow> EbsDeviceVolumeType \<Rightarrow> BlockDeviceVolume" where
  "ebs n e t = \<lparr>volumeSize = n, encrypted = e, volumeType = t\<rparr>"

record BlockDevice =
  deviceName :: string
  volume :: BlockDeviceVolume

datatype AmazonLinuxGeneration = AMAZON_LINUX_2

datatype MachineImage = latestAmazonLinux AmazonLinuxGeneration

type_synonym UserData = "string list"

definition forLinux :: "string \<Rightarrow> UserData" where
  "forLinux shebang = [shebang]"

definition addCommands :: "UserData \<Rightarrow> string \<Rightarrow> UserData" where
  "addCommands u command = u @ [command]"

record Instance =
  instNodeId :: string
  instInstanceType :: InstanceType
  machineImage :: MachineImage
  instVpc :: IVpc
  blockDevices :: "BlockDevice list"
  role :: Role
  instSecurityGroup :: SecurityGroup
  instVpcSubnets :: "Subnet list"
  userData :: UserData

subsection \<open>Reading the boot script\<close>

definition readFileSync :: "(string \<rightharpoonup> string) \<Rightarrow> string \<Rightarrow> error + string" where
  "readFileSync fs path = (case fs path of None \<Rightarrow> Inl (ENOENT path) | Some text \<Rightarrow> Inr text)"

section \<open>Data Cluster Unit (lib/database-stack.ts)\<close>

record DatabaseStackPops = StackProps +
  propsVpc :: IVpc

datatype Construct =
    SecurityGroupC SecurityGroup
  | SecretC Secret
  | ParameterGroupC ParameterGroup
  | SubnetGroupC SubnetGroup
  | DatabaseClusterC DatabaseCluster
  | SecretRotationC SecretRotation
  | ManagedPolicyC ManagedPolicy
  | RoleC Role
  | InstanceC Instance

record DatabaseStack = Stack +
  children :: "Construct list"

text \<open>Characters to exclude in passwords set for DB: \<^verbatim>\<open>:@/" '\<close>.\<close>

definition EXCLUDE_CHARACTERS :: string where
  "EXCLUDE_CHARACTERS = [CHR '':'', CHR ''@'', CHR ''/'', CHR 0x22, CHR '' '', CHR 0x27]"

text \<open>Security Group for DB Client\<close>

definition dbClientSg :: "IVpc \<Rightarrow> SecurityGroup" where
  "dbClientSg v =
     \<lparr>sgNodeId = ''DbClientSg'',
      sgVpc = v,
      securityGroupName = ''prd-db-client-sg'',
      sgDescription = [],
      allowAllOutbound = True,
      ingressRules = []\<rparr>"

text \<open>Security Group for Lambda Functions that rotate secret\<close>

definition rotateSecretsLambdaFunctionSg :: "IVpc \<Rightarrow> SecurityGroup" where
  "rotateSecretsLambdaFunctionSg v =
     \<lparr>sgNodeId = ''RotateSecretsLambdaFunctionSg'',
      sgVpc = v,
      securityGroupName = ''prd-rotate-secrets-lambda-sg'',
      sgDescription = [],
      allowAllOutbound = True,
      ingressRules = []\<rparr>"

text \<open>
  Security Group for DB: allow access from DB clients and Lambda Functions that rotate
  the secret.
\<close>

definition dbSg :: "IVpc \<Rightarrow> SecurityGroup" where
  "dbSg v =
     (let sg0 = \<lparr>sgNodeId = ''DbSg'',
                 sgVpc = v,
                 securityGroupName = ''prd-db-sg'',
                 sgDescription = [],
                 allowAllOutbound = True,
                 ingressRules = []\<rparr>;
          sg1 = addIngressRule sg0
                  (Peer_securityGroupId (securityGroupId (rotateSecretsLambdaFunctionSg v)))
                  (Port_tcp 5432)
                  ''Allow DB access from Lambda Functions that rotate Secrets''
      in addIngressRule sg1
           (Peer_securityGroupId (securityGroupId (dbClientSg v)))
           (Port_tcp 5432)
           ''Allow DB access from DB Client'')"

text \<open>DB Admin User Secret\<close>

definition dbAdminSecret :: Secret where
  \<open>dbAdminSecret =
     \<lparr>secretNodeId = ''DbAdminSecret'',
      secretName = ''prd-db-cluster/AdminLoginInfo'',
      generateSecretString = Some
        \<lparr>excludeCharacters = Some EXCLUDE_CHARACTERS,
         excludeLowercase = None,
         excludeNumbers = None,
         excludePunctuation = None,
         excludeUppercase = None,
         generateStringKey = Some ''password'',
         includeSpace = None,
         passwordLength = Some 32,
         requireEachIncludedType = Some True,
         secretStringTemplate = Some ''{"username": "postgresAdmin"}''\<rparr>,
      secretStringBeta1 = None\<rparr>\<close>

text \<open>User for password rotation\<close>

definition dbRotationPasswordUserSecret :: Secret where
  \<open>dbRotationPasswordUserSecret =
     \<lparr>secretNodeId = ''DbRotationPasswordUserSecret'',
      secretName = ''prd-db-cluster/rotationPasswordUserLoginInfo'',
      generateSecretString = None,
      secretStringBeta1 = Some (fromUnsafePlaintext
        ''{"username": "rotationPasswordUser","password": "rotationPasswordUser_password"}'')\<rparr>\<close>

text \<open>DB Cluster Parameter Group\<close>

definition dbClusterParameterGroup :: ParameterGroup where
  "dbClusterParameterGroup =
     \<lparr>pgNodeId = ''DbClusterParameterGroup'',
      pgEngine = auroraPostgres VER_13_4,
      pgDescription = ''aurora-postgresql13'',
      parameters =
        [(''pgaudit.log'', ''all''),
         (''pgaudit.role'', ''rds_pgaudit''),
         (''shared_preload_libraries'', ''pgaudit''),
         (''timezone'', ''Asia/Tokyo'')]\<rparr>"

text \<open>DB Parameter Group\<close>

definition dbParameterGroup :: ParameterGroup where
  "dbParameterGroup =
     \<lparr>pgNodeId = ''DbParameterGroup'',
      pgEngine = auroraPostgres VER_13_4,
      pgDescription = ''aurora-postgresql13'',
      parameters = []\<rparr>"

text \<open>Subnet Group\<close>

definition subnetGroup_decl :: "IVpc \<Rightarrow> SubnetGroup" where
  "subnetGroup_decl v =
     \<lparr>sngNodeId = ''SubnetGroup'',
      sngDescription = ''description'',
      sngVpc = v,
      subnetGroupName = ''SubnetGroup'',
      sngVpcSubnets =
        selectSubnets v \<lparr>onePerAz = True, selSubnetType = PRIVATE_ISOLATED\<rparr>\<rparr>"

text \<open>DB Cluster\<close>

definition dbCluster :: "IVpc \<Rightarrow> DatabaseCluster" where
  "dbCluster v =
     \<lparr>dbcNodeId = ''DbCluster'',
      engine = auroraPostgres VER_13_4,
      instanceProps =
        \<lparr>ipVpc = v,
         allowMajorVersionUpgrade = False,
         autoMinorVersionUpgrade = True,
         deleteAutomatedBackups = False,
         enablePerformanceInsights = True,
         instanceType = InstanceType_of BURSTABLE3 MEDIUM,
         ipParameterGroup = dbParameterGroup,
         performanceInsightRetention = DEFAULT,
         publiclyAccessible = False,
         securityGroups = [dbSg v]\<rparr>,
      backup = \<lparr>retention = Duration_days 7, preferredWindow = ''16:00-16:30''\<rparr>,
      cloudwatchLogsExports = [''postgresql''],
      cloudwatchLogsRetention = ONE_YEAR,
      clusterIdentifier = ''prd-db-cluster'',
      copyTagsToSnapshot = True,
      credentials = fromSecret dbAdminSecret,
      defaultDatabaseName = ''testDB'',
      deletionProtection = True,
      iamAuthentication = False,
      instanceIdentifierBase = ''prd-db-instance'',
      instances = 1,
      monitoringInterval = Duration_minutes 1,
      parameterGroup = dbClusterParameterGroup,
      preferredMaintenanceWindow = ''Sat:17:00-Sat:17:30'',
      storageEncrypted = True,
      subnetGroup = subnetGroup_decl v\<rparr>"

text \<open>Rotate DB Admin user secret\<close>

definition DbAdminSecretRotationMultiUser :: "IVpc \<Rightarrow> SecretRotation" where
  "DbAdminSecretRotationMultiUser v =
     \<lparr>rotNodeId = ''DbAdminSecretRotationMultiUser'',
      application = POSTGRES_ROTATION_MULTI_USER,
      secret = dbAdminSecret,
      target = dbCluster v,
      rotVpc = v,
      automaticallyAfter = Duration_days 3,
      rotExcludeCharacters = EXCLUDE_CHARACTERS,
      masterSecret = Some dbRotationPasswordUserSecret,
      rotSecurityGroup = rotateSecretsLambdaFunctionSg v,
      rotVpcSubnets =
        selectSubnets v \<lparr>onePerAz = False, selSubnetType = PRIVATE_WITH_NAT\<rparr>\<rparr>"

text \<open>Rotation of password rotation for user's secret for password rotation\<close>

definition DbRotationPasswordUserSecretRotationSingleUser :: "IVpc \<Rightarrow> SecretRotation" where
  "DbRotationPasswordUserSecretRotationSingleUser v =
     \<lparr>rotNodeId = ''DbRotationPasswordUserSecretRotationSingleUser'',
      application = POSTGRES_ROTATION_SINGLE_USER,
      secret = dbRotationPasswordUserSecret,
      target = dbCluster v,
      rotVpc = v,
      automaticallyAfter = Duration_days 3,
      rotExcludeCharacters = EXCLUDE_CHARACTERS,
      masterSecret = None,
      rotSecurityGroup = rotateSecretsLambdaFunctionSg v,
      rotVpcSubnets =
        selectSubnets v \<lparr>onePerAz = False, selSubnetType = PRIVATE_WITH_NAT\<rparr>\<rparr>"

text \<open>DB Client IAM role\<close>

definition GetSecretValueIamPolicy :: ManagedPolicy where
  "GetSecretValueIamPolicy =
     ManagedPolicy ''GetSecretValueIamPolicy''
       [\<lparr>effect = ALLOW,
         resources = [secretArn dbAdminSecret, secretArn dbRotationPasswordUserSecret],
         actions = [''secretsmanager:GetSecretValue'',
                    ''secretsmanager:ListSecretVersionIds'']\<rparr>]"

definition dbClientIamRole :: Role where
  "dbClientIamRole =
     \<lparr>roleNodeId = ''DbClientIamRole'',
      assumedBy = ServicePrincipal ''ec2.amazonaws.com'',
      managedPolicies =
        [fromAwsManagedPolicyName ''AmazonSSMManagedInstanceCore'',
         GetSecretValueIamPolicy]\<rparr>"

text \<open>User data for Amazon Linux 2\<close>

definition userDataAmazonLinux2 :: "string \<Rightarrow> UserData" where
  "userDataAmazonLinux2 userDataParameter =
     addCommands (forLinux ''#!/bin/bash'') userDataParameter"

text \<open>DB Client\<close>

definition DbClient :: "IVpc \<Rightarrow> UserData \<Rightarrow> Instance" where
  "DbClient v u =
     \<lparr>instNodeId = ''DbClient'',
      instInstanceType = InstanceType ''t3.micro'',
      machineImage = latestAmazonLinux AMAZON_LINUX_2,
      instVpc = v,
      blockDevices = [\<lparr>deviceName = ''/dev/xvda'', volume = ebs 8 True GP3\<rparr>],
      role = dbClientIamRole,
      instSecurityGroup = dbClientSg v,
      instVpcSubnets =
        selectSubnets v \<lparr>onePerAz = False, selSubnetType = PRIVATE_WITH_NAT\<rparr>,
      userData = u\<rparr>"

text \<open>
  The boundaries changed after their declaration, once both rotation jobs are
  constructed (the two \<^verbatim>\<open>new secretsmanager.SecretRotation\<close> statements, in their
  order).
\<close>

definition boundariesAfterRotations :: "IVpc \<Rightarrow> Boundaries" where
  "boundariesAfterRotations v =
     SecretRotation_new
       (SecretRotation_new Map.empty (DbAdminSecretRotationMultiUser v))
       (DbRotationPasswordUserSecretRotationSingleUser v)"

text \<open>
  A declaration is read when the constructor has finished: every boundary a construct
  holds is then in its present state.
\<close>

fun resolve :: "Boundaries \<Rightarrow> Construct \<Rightarrow> Construct" where
  "resolve h (SecurityGroupC x) = SecurityGroupC (deref h x)"
| "resolve h (DatabaseClusterC x) = DatabaseClusterC (resolveCluster h x)"
| "resolve h (SecretRotationC x) =
     SecretRotationC (x\<lparr>target := resolveCluster h (target x),
                        rotSecurityGroup := deref h (rotSecurityGroup x)\<rparr>)"
| "resolve h (InstanceC x) = InstanceC (x\<lparr>instSecurityGroup := deref h (instSecurityGroup x)\<rparr>)"
| "resolve h (SecretC x) = SecretC x"
| "resolve h (ParameterGroupC x) = ParameterGroupC x"
| "resolve h (SubnetGroupC x) = SubnetGroupC x"
| "resolve h (ManagedPolicyC x) = ManagedPolicyC x"
| "resolve h (RoleC x) = RoleC x"

text \<open>
  The constructor: every construct is registered in the unit in the order of its
  declaration. The boot script is read from its fixed relative path; when the file is
  missing the constructor throws and the unit is not produced.
\<close>

definition DatabaseStack ::
  "(string \<rightharpoonup> string) \<Rightarrow> string \<Rightarrow> DatabaseStackPops \<Rightarrow> error + DatabaseStack"
where
  "DatabaseStack fs id' props =
     (let v = propsVpc props in
      case readFileSync fs ''./src/ec2/user_data_amazon_linux2.sh'' of
        Inl e \<Rightarrow> Inl e
      | Inr userDataParameter \<Rightarrow>
          Inr \<lparr>stackId = id',
               stackTerminationProtection =
                 (case terminationProtection props of None \<Rightarrow> False | Some b \<Rightarrow> b),
               stackTags = [],
               children = map (resolve (boundariesAfterRotations v))
                 [SecurityGroupC (dbClientSg v),
                  SecurityGroupC (rotateSecretsLambdaFunctionSg v),
                  SecurityGroupC (dbSg v),
                  SecretC dbAdminSecret,
                  SecretC dbRotationPasswordUserSecret,
                  ParameterGroupC dbClusterParameterGroup,
                  ParameterGroupC dbParameterGroup,
                  SubnetGroupC (subnetGroup_decl v),
                  DatabaseClusterC (dbCluster v),
                  SecretRotationC (DbAdminSecretRotationMultiUser v),
                  SecretRotationC (DbRotationPasswordUserSecretRotationSingleUser v),
                  ManagedPolicyC GetSecretValueIamPolicy,
                  RoleC dbClientIamRole,
                  InstanceC (DbClient v (userDataAmazonLinux2 userDataParameter))]\<rparr>)"

subsection \<open>Looking constructs up in a unit\<close>

fun securityGroupsOf :: "Construct list \<Rightarrow> SecurityGroup list" where
  "securityGroupsOf [] = []"
| "securityGroupsOf (SecurityGroupC x # cs) = x # securityGroupsOf cs"
| "securityGroupsOf (_ # cs) = securityGroupsOf cs"

fun databaseClustersOf :: "Construct list \<Rightarrow> DatabaseCluster list" where
  "databaseClustersOf [] = []"
| "databaseClustersOf (DatabaseClusterC x # cs) = x # databaseClustersOf cs"
| "databaseClustersOf (_ # cs) = databaseClustersOf cs"

fun secretRotationsOf :: "Construct list \<Rightarrow> SecretRotation list" where
  "secretRotationsOf [] = []"
| "secretRotationsOf (SecretRotationC x # cs) = x # secretRotationsOf cs"
| "secretRotationsOf (_ # cs) = secretRotationsOf cs"

fun instancesOf :: "Construct list \<Rightarrow> Instance list" where
  "instancesOf [] = []"
| "instancesOf (InstanceC x # cs) = x # instancesOf cs"
| "instancesOf (_ # cs) = instancesOf cs"

definition clusterBoundaries :: "Construct list \<Rightarrow> SecurityGroup list" where
  "clusterBoundaries cs =
     concat (map (securityGroups \<circ> instanceProps) (databaseClustersOf cs))"

section \<open>Composition Entry Point (bin/database.ts)\<close>

definition Tags_add :: "string \<Rightarrow> string \<Rightarrow> 'a Stack_scheme \<Rightarrow> 'a Stack_scheme" where
  "Tags_add k v st = st\<lparr>stackTags := stackTags st @ [(k, v)]\<rparr>"

record App =
  vpcStack :: VpcStack
  databaseStack :: DatabaseStack

text \<open>
  The inputs of a run are the file system the boot script is read from and the zones
  offered to the units.
\<close>

definition app :: "(string \<rightharpoonup> string) \<Rightarrow> string list \<Rightarrow> error + App" where
  "app fs stackZones =
     (case VpcStack stackZones ''VpcStack'' \<lparr>terminationProtection = Some True\<rparr> of
        Inl e \<Rightarrow> Inl e
      | Inr vs \<Rightarrow>
          (case DatabaseStack fs ''DatabaseStack''
                  \<lparr>terminationProtection = Some True, propsVpc = vpc vs\<rparr> of
             Inl e \<Rightarrow> Inl e
           | Inr ds \<Rightarrow>
               Inr \<lparr>vpcStack = Tags_add ''Environment'' ''Production'' vs,
                    databaseStack = Tags_add ''Environment'' ''Production'' ds\<rparr>))"

section \<open>A sample run\<close>

text \<open>
  Concrete inputs on which the statements below are exercised: a file system that holds
  the boot script, two zones of one region, and the network those two zones yield.
\<close>

definition exampleFs :: "string \<rightharpoonup> string" where
  "exampleFs = [''./src/ec2/user_data_amazon_linux2.sh'' \<mapsto> ''yum update -y'']"

definition exampleZones :: "string list" where
  "exampleZones = [''ap-northeast-1a'', ''ap-northeast-1c'']"

definition exampleSubnet :: "string \<Rightarrow> SubnetType \<Rightarrow> string \<Rightarrow> nat \<Rightarrow> Subnet" where
  "exampleSubnet n t z a =
     \<lparr>groupName = n, tier = t, availabilityZone = z, block = \<lparr>minAddress = a, mask = 28\<rparr>\<rparr>"

definition exampleVpc :: IVpc where
  "exampleVpc =
     \<lparr>vpcCidrBlock = \<lparr>minAddress = 168427520, mask = 24\<rparr>,
      dnsHostnames = True,
      dnsSupport = True,
      natGatewayCount = 1,
      availabilityZones = exampleZones,
      subnets =
        [exampleSubnet ''Public'' PUBLIC ''ap-northeast-1a'' 168427520,
         exampleSubnet ''Public'' PUBLIC ''ap-northeast-1c'' 168427536,
         exampleSubnet ''Private'' PRIVATE_WITH_NAT ''ap-northeast-1a'' 168427552,
         exampleSubnet ''Private'' PRIVATE_WITH_NAT ''ap-northeast-1c'' 168427568,
         exampleSubnet ''Isolate'' PRIVATE_ISOLATED ''ap-northeast-1a'' 168427584,
         exampleSubnet ''Isolate'' PRIVATE_ISOLATED ''ap-northeast-1c'' 168427600]\<rparr>"

definition exampleProps :: DatabaseStackPops where
  "exampleProps = \<lparr>terminationProtection = Some True, propsVpc = exampleVpc\<rparr>"

definition exampleStack :: DatabaseStack where
  "exampleStack = projr (DatabaseStack exampleFs ''DatabaseStack'' exampleProps)"

definition examplePassword :: string where
  "examplePassword = ''kT7#kT7#kT7#kT7#kT7#kT7#kT7#kT7#''"

section \<open>Facts about the modelled SDK operations\<close>

lemma retainOnePerAz_subset: "set (retainOnePerAz xs seen) \<subseteq> set xs"
  by (induction xs arbitrary: seen) auto

lemma selectSubnets_member:
  assumes "s \<in> set (selectSubnets v selection)"
  shows "tier s = selSubnetType selection \<and> s \<in> set (subnets v)"
proof -
  let ?byType = "filter (\<lambda>s. tier s = selSubnetType selection) (subnets v)"
  have "set (selectSubnets v selection) \<subseteq> set ?byType"
    using retainOnePerAz_subset [of ?byType "[]"] by (simp add: selectSubnets_def Let_def)
  with assms have "s \<in> set ?byType" by blast
  then show ?thesis by simp
qed

lemma dbSg_ingressRules:
  "ingressRules (dbSg v) =
     [\<lparr>peer = Peer_securityGroupId (securityGroupId (rotateSecretsLambdaFunctionSg v)),
       connection = Port_tcp 5432,
       ruleDescription = ''Allow DB access from Lambda Functions that rotate Secrets''\<rparr>,
      \<lparr>peer = Peer_securityGroupId (securityGroupId (dbClientSg v)),
       connection = Port_tcp 5432,
       ruleDescription = ''Allow DB access from DB Client''\<rparr>]"
  by (simp add: dbSg_def addIngressRule_def hasIngressRule_def Let_def securityGroupId_def
      rotateSecretsLambdaFunctionSg_def dbClientSg_def)

lemma dbSg_fields:
  "sgNodeId (dbSg v) = ''DbSg''" "allowAllOutbound (dbSg v)"
  by (simp_all add: dbSg_def addIngressRule_def hasIngressRule_def Let_def)

section \<open>The boundaries once the rotation jobs are constructed\<close>

lemma rotation_job_fields:
  "target (DbAdminSecretRotationMultiUser v) = dbCluster v"
  "target (DbRotationPasswordUserSecretRotationSingleUser v) = dbCluster v"
  "rotSecurityGroup (DbAdminSecretRotationMultiUser v) = rotateSecretsLambdaFunctionSg v"
  "rotSecurityGroup (DbRotationPasswordUserSecretRotationSingleUser v)
     = rotateSecretsLambdaFunctionSg v"
  by (simp_all add: DbAdminSecretRotationMultiUser_def
      DbRotationPasswordUserSecretRotationSingleUser_def)

lemma dbCluster_boundaries: "securityGroups (instanceProps (dbCluster v)) = [dbSg v]"
  by (simp add: dbCluster_def)

lemma boundariesAfterRotations_eq:
  "boundariesAfterRotations v =
     [''DbSg'' \<mapsto> (dbSg v)\<lparr>ingressRules := ingressRules (dbSg v) @
        [\<lparr>peer = Peer_securityGroupId (securityGroupId (rotateSecretsLambdaFunctionSg v)),
          connection = defaultPort (dbCluster v),
          ruleDescription = ''from RotateSecretsLambdaFunctionSg:{IndirectPort}''\<rparr>]\<rparr>]"
proof -
  let ?grant = "\<lparr>peer = Peer_securityGroupId (securityGroupId (rotateSecretsLambdaFunctionSg v)),
          connection = defaultPort (dbCluster v),
          ruleDescription = ''from RotateSecretsLambdaFunctionSg:{IndirectPort}''\<rparr>"
  let ?opened = "(dbSg v)\<lparr>ingressRules := ingressRules (dbSg v) @ [?grant]\<rparr>"
  have name: "sgNodeId (rotateSecretsLambdaFunctionSg v) = ''RotateSecretsLambdaFunctionSg''"
    by (simp add: rotateSecretsLambdaFunctionSg_def)
  have fresh: "\<not> hasIngressRule (dbSg v)
      (Peer_securityGroupId (securityGroupId (rotateSecretsLambdaFunctionSg v)))
      (defaultPort (dbCluster v))"
    by (simp add: hasIngressRule_def dbSg_ingressRules defaultPort_def)
  have first: "SecretRotation_new Map.empty (DbAdminSecretRotationMultiUser v)
      = [''DbSg'' \<mapsto> ?opened]"
    using fresh
    by (simp add: SecretRotation_new_def allowDefaultPortFrom_def rotation_job_fields
        dbCluster_boundaries deref_def dbSg_fields addIngressRule_def name)
  have held: "hasIngressRule ?opened
      (Peer_securityGroupId (securityGroupId (rotateSecretsLambdaFunctionSg v)))
      (defaultPort (dbCluster v))"
    by (simp add: hasIngressRule_def)
  have second: "SecretRotation_new [''DbSg'' \<mapsto> ?opened]
      (DbRotationPasswordUserSecretRotationSingleUser v) = [''DbSg'' \<mapsto> ?opened]"
    using held
    by (simp add: SecretRotation_new_def allowDefaultPortFrom_def rotation_job_fields
        dbCluster_boundaries deref_def dbSg_fields addIngressRule_def)
  show ?thesis
    unfolding boundariesAfterRotations_def first second ..
qed

lemma deref_dbSg:
  "ingressRules (deref (boundariesAfterRotations v) (dbSg v)) =
     [\<lparr>peer = Peer_securityGroupId (securityGroupId (rotateSecretsLambdaFunctionSg v)),
       connection = Port_tcp 5432,
       ruleDescription = ''Allow DB access from Lambda Functions that rotate Secrets''\<rparr>,
      \<lparr>peer = Peer_securityGroupId (securityGroupId (dbClientSg v)),
       connection = Port_tcp 5432,
       ruleDescription = ''Allow DB access from DB Client''\<rparr>,
      \<lparr>peer = Peer_securityGroupId (securityGroupId (rotateSecretsLambdaFunctionSg v)),
       connection = defaultPort (dbCluster v),
       ruleDescription = ''from RotateSecretsLambdaFunctionSg:{IndirectPort}''\<rparr>]"
  and deref_dbSg_fields:
    "sgNodeId (deref (boundariesAfterRotations v) (dbSg v)) = ''DbSg''"
    "allowAllOutbound (deref (boundariesAfterRotations v) (dbSg v))"
  by (simp_all add: boundariesAfterRotations_eq deref_def dbSg_fields dbSg_ingressRules)

lemma deref_untouched:
  "deref (boundariesAfterRotations v) (dbClientSg v) = dbClientSg v"
  "deref (boundariesAfterRotations v) (rotateSecretsLambdaFunctionSg v)
     = rotateSecretsLambdaFunctionSg v"
  by (simp_all add: boundariesAfterRotations_eq deref_def dbClientSg_def
      rotateSecretsLambdaFunctionSg_def)

lemma resolved_cluster:
  "securityGroups (instanceProps (resolveCluster h (dbCluster v))) = [deref h (dbSg v)]"
  "subnetGroup (resolveCluster h (dbCluster v)) = subnetGroup_decl v"
  "credentials (resolveCluster h (dbCluster v)) = fromSecret dbAdminSecret"
  "deletionProtection (resolveCluster h (dbCluster v))"
  "dbcNodeId (resolveCluster h (dbCluster v)) = ''DbCluster''"
  by (simp_all add: resolveCluster_def dbCluster_def)

section \<open>The constructs registered by the Data Cluster Unit\<close>

lemma DatabaseStack_children:
  assumes "DatabaseStack fs id' props = Inr st"
  shows "\<exists>u. children st = map (resolve (boundariesAfterRotations (propsVpc props)))
     [SecurityGroupC (dbClientSg (propsVpc props)),
      SecurityGroupC (rotateSecretsLambdaFunctionSg (propsVpc props)),
      SecurityGroupC (dbSg (propsVpc props)),
      SecretC dbAdminSecret,
      SecretC dbRotationPasswordUserSecret,
      ParameterGroupC dbClusterParameterGroup,
      ParameterGroupC dbParameterGroup,
      SubnetGroupC (subnetGroup_decl (propsVpc props)),
      DatabaseClusterC (dbCluster (propsVpc props)),
      SecretRotationC (DbAdminSecretRotationMultiUser (propsVpc props)),
      SecretRotationC (DbRotationPasswordUserSecretRotationSingleUser (propsVpc props)),
      ManagedPolicyC GetSecretValueIamPolicy,
      RoleC dbClientIamRole,
      InstanceC (DbClient (propsVpc props) u)]"
  using assms
  by (auto simp add: DatabaseStack_def Let_def split: sum.splits)

lemma DatabaseStack_securityGroups:
  assumes "DatabaseStack fs id' props = Inr st"
  shows "securityGroupsOf (children st) =
     [dbClientSg (propsVpc props), rotateSecretsLambdaFunctionSg (propsVpc props),
      deref (boundariesAfterRotations (propsVpc props)) (dbSg (propsVpc props))]"
  using DatabaseStack_children [OF assms] by (auto simp add: deref_untouched)

lemma DatabaseStack_clusters:
  assumes "DatabaseStack fs id' props = Inr st"
  shows "databaseClustersOf (children st) =
     [resolveCluster (boundariesAfterRotations (propsVpc props)) (dbCluster (propsVpc props))]"
  using DatabaseStack_children [OF assms] by auto

lemma DatabaseStack_rotations:
  assumes "DatabaseStack fs id' props = Inr st"
  shows "secretRotationsOf (children st) =
     [(DbAdminSecretRotationMultiUser (propsVpc props))
        \<lparr>target := resolveCluster (boundariesAfterRotations (propsVpc props))
                     (dbCluster (propsVpc props))\<rparr>,
      (DbRotationPasswordUserSecretRotationSingleUser (propsVpc props))
        \<lparr>target := resolveCluster (boundariesAfterRotations (propsVpc props))
                     (dbCluster (propsVpc props))\<rparr>]"
  using DatabaseStack_children [OF assms]
  by (auto simp add: rotation_job_fields deref_untouched)

lemma DatabaseStack_instances:
  assumes "DatabaseStack fs id' props = Inr st"
  shows "\<exists>u. instancesOf (children st) = [DbClient (propsVpc props) u]"
proof -
  have held: "instSecurityGroup (DbClient v u) = dbClientSg v"
    and same: "(DbClient v u)\<lparr>instSecurityGroup := dbClientSg v\<rparr> = DbClient v u" for v u
    by (simp_all add: DbClient_def)
  show ?thesis
    using DatabaseStack_children [OF assms] by (auto simp add: deref_untouched held same)
qed

lemma DatabaseStack_protection:
  assumes "DatabaseStack fs id' props = Inr st"
  shows "stackTerminationProtection st = (terminationProtection props = Some True)"
  using assms
  by (auto simp add: DatabaseStack_def Let_def split: sum.splits option.splits)

lemma DatabaseStack_example:
  "DatabaseStack exampleFs ''DatabaseStack'' exampleProps = Inr exampleStack"
  by (simp add: exampleStack_def DatabaseStack_def readFileSync_def exampleFs_def Let_def)

section \<open>The database's subnet group\<close>

text \<open>
  C1. For every network handed to the Data Cluster Unit, every subnet selected into the
  subnet group of the relational cluster is of the fully-isolated reachability class
  (\<open>PRIVATE_ISOLATED\<close>); the selection holds no subnet of the public or of the
  outbound-only tier, and only subnets of the network itself.
\<close>

theorem subnetGroup_fully_isolated:
  assumes "DatabaseStack fs id' props = Inr st"
    and "cl \<in> set (databaseClustersOf (children st))"
    and "s \<in> set (sngVpcSubnets (subnetGroup cl))"
  shows "tier s = PRIVATE_ISOLATED \<and> tier s \<noteq> PUBLIC \<and> tier s \<noteq> PRIVATE_WITH_NAT \<and>
         s \<in> set (subnets (propsVpc props))"
proof -
  from assms(1,2) have cl: "cl = resolveCluster (boundariesAfterRotations (propsVpc props))
      (dbCluster (propsVpc props))"
    by (simp add: DatabaseStack_clusters)
  with assms(3) have "s \<in> set (selectSubnets (propsVpc props)
      \<lparr>onePerAz = True, selSubnetType = PRIVATE_ISOLATED\<rparr>)"
    by (simp add: resolved_cluster subnetGroup_decl_def)
  from selectSubnets_member [OF this] show ?thesis by simp
qed

lemma exampleVpc_isolated:
  "selectSubnets exampleVpc \<lparr>onePerAz = True, selSubnetType = PRIVATE_ISOLATED\<rparr> =
     [exampleSubnet ''Isolate'' PRIVATE_ISOLATED ''ap-northeast-1a'' 168427584,
      exampleSubnet ''Isolate'' PRIVATE_ISOLATED ''ap-northeast-1c'' 168427600]"
  by (simp add: selectSubnets_def exampleVpc_def exampleSubnet_def)

theorem subnetGroup_fully_isolated_witness:
  "DatabaseStack exampleFs ''DatabaseStack'' exampleProps = Inr exampleStack \<and>
   (\<exists>cl. cl \<in> set (databaseClustersOf (children exampleStack)) \<and>
      exampleSubnet ''Isolate'' PRIVATE_ISOLATED ''ap-northeast-1c'' 168427600
        \<in> set (sngVpcSubnets (subnetGroup cl))) \<and>
   tier (exampleSubnet ''Isolate'' PRIVATE_ISOLATED ''ap-northeast-1c'' 168427600)
     = PRIVATE_ISOLATED"
proof -
  note st = DatabaseStack_example
  define cl where "cl = resolveCluster (boundariesAfterRotations exampleVpc) (dbCluster exampleVpc)"
  have cl: "cl \<in> set (databaseClustersOf (children exampleStack))"
    using DatabaseStack_clusters [OF st] by (simp add: exampleProps_def cl_def)
  have s: "exampleSubnet ''Isolate'' PRIVATE_ISOLATED ''ap-northeast-1c'' 168427600
          \<in> set (sngVpcSubnets (subnetGroup cl))"
    by (simp add: cl_def resolved_cluster subnetGroup_decl_def exampleVpc_isolated)
  from subnetGroup_fully_isolated [OF st cl s] st cl s show ?thesis by blast
qed

section \<open>Inbound rules of the database boundary\<close>

lemma boundary_identities_differ:
  "securityGroupId (dbClientSg v) \<noteq> securityGroupId (rotateSecretsLambdaFunctionSg v)"
  by (simp add: securityGroupId_def dbClientSg_def rotateSecretsLambdaFunctionSg_def)

lemma exampleStack_cluster_boundaries:
  "clusterBoundaries (children exampleStack) =
     [deref (boundariesAfterRotations exampleVpc) (dbSg exampleVpc)]"
  using DatabaseStack_clusters [OF DatabaseStack_example]
  by (simp add: clusterBoundaries_def resolved_cluster exampleProps_def)

text \<open>
  C2. Every inbound rule of the database security boundary (the one attached to the
  relational cluster) has as its source the identity of the client boundary or of the
  rotation-worker boundary, and none has an unrestricted peer. The unit declares two
  rules on it, one from the rotation-worker boundary and one from the client boundary,
  both on TCP port 5432; the rotation jobs add one further rule, from the
  rotation-worker boundary on the endpoint port of the cluster they target, so that the
  boundary holds three inbound rules and not two. The client boundary is the one
  attached to the administrative node, the rotation-worker boundary the one under which
  every rotation job runs.
\<close>

theorem dbSg_inbound_rules:
  assumes "DatabaseStack fs id' props = Inr st"
    and "cl \<in> set (databaseClustersOf (children st))"
    and "db \<in> set (securityGroups (instanceProps cl))"
    and "node \<in> set (instancesOf (children st))"
    and "job \<in> set (secretRotationsOf (children st))"
  shows "SecurityGroupC db \<in> set (children st) \<and>
         length (ingressRules db) = 3 \<and>
         map (\<lambda>r. (peer r, connection r)) (ingressRules db) =
           [(Peer_securityGroupId (securityGroupId (rotSecurityGroup job)), Port_tcp 5432),
            (Peer_securityGroupId (securityGroupId (instSecurityGroup node)), Port_tcp 5432),
            (Peer_securityGroupId (securityGroupId (rotSecurityGroup job)),
             Port_tcpToken (GetAtt (dbcNodeId (target job)) ''Endpoint.Port''))] \<and>
         target job = cl \<and>
         securityGroupId (instSecurityGroup node) \<noteq> securityGroupId (rotSecurityGroup job) \<and>
         list_all (\<lambda>r. \<not> unrestrictedPeer (peer r)) (ingressRules db)"
proof -
  let ?v = "propsVpc props"
  let ?h = "boundariesAfterRotations ?v"
  from assms(1,2) have cl: "cl = resolveCluster ?h (dbCluster ?v)"
    by (simp add: DatabaseStack_clusters)
  with assms(3) have db: "db = deref ?h (dbSg ?v)"
    by (simp add: resolved_cluster)
  from assms(4) have node: "instSecurityGroup node = dbClientSg ?v"
    using DatabaseStack_instances [OF assms(1)] by (auto simp add: DbClient_def)
  from assms(5) have job: "rotSecurityGroup job = rotateSecretsLambdaFunctionSg ?v"
    and aim: "target job = cl"
    using DatabaseStack_rotations [OF assms(1)] by (auto simp add: rotation_job_fields cl)
  have reg: "SecurityGroupC db \<in> set (children st)"
    using DatabaseStack_children [OF assms(1)] by (auto simp add: db)
  have port: "defaultPort (dbCluster ?v) =
      Port_tcpToken (GetAtt (dbcNodeId (target job)) ''Endpoint.Port'')"
  proof -
    have "dbcNodeId (dbCluster ?v) = ''DbCluster''"
      by (simp add: dbCluster_def)
    then show ?thesis
      by (simp add: defaultPort_def aim cl resolved_cluster)
  qed
  show ?thesis
    using reg aim boundary_identities_differ [of ?v]
    by (simp add: db node job deref_dbSg port)
qed

theorem dbSg_inbound_rules_witness:
  "DatabaseStack exampleFs ''DatabaseStack'' exampleProps = Inr exampleStack \<and>
   (\<exists>cl db node job.
      cl \<in> set (databaseClustersOf (children exampleStack)) \<and>
      db \<in> set (securityGroups (instanceProps cl)) \<and>
      node \<in> set (instancesOf (children exampleStack)) \<and>
      job \<in> set (secretRotationsOf (children exampleStack)) \<and>
      length (ingressRules db) = 3 \<and>
      list_all (\<lambda>r. \<not> unrestrictedPeer (peer r)) (ingressRules db))"
proof -
  note st = DatabaseStack_example
  obtain cl where cl: "databaseClustersOf (children exampleStack) = [cl]"
    using DatabaseStack_clusters [OF st] by simp
  obtain db where db: "securityGroups (instanceProps cl) = [db]"
    using DatabaseStack_clusters [OF st] cl by (simp add: resolved_cluster)
  obtain node where node: "instancesOf (children exampleStack) = [node]"
    using DatabaseStack_instances [OF st] by blast
  obtain job other where job: "secretRotationsOf (children exampleStack) = [job, other]"
    using DatabaseStack_rotations [OF st] by simp
  have mem: "cl \<in> set (databaseClustersOf (children exampleStack))"
    "db \<in> set (securityGroups (instanceProps cl))"
    "node \<in> set (instancesOf (children exampleStack))"
    "job \<in> set (secretRotationsOf (children exampleStack))"
    by (simp_all add: cl db node job)
  from dbSg_inbound_rules [OF st mem] st mem show ?thesis by blast
qed

theorem dbSg_two_rules_counterexample:
  "DatabaseStack exampleFs ''DatabaseStack'' exampleProps = Inr exampleStack \<and>
   map sgNodeId (clusterBoundaries (children exampleStack)) = [''DbSg''] \<and>
   length (concat (map ingressRules (clusterBoundaries (children exampleStack)))) = 3 \<and>
   map connection (concat (map ingressRules (clusterBoundaries (children exampleStack)))) =
     [Port_tcp 5432, Port_tcp 5432, Port_tcpToken (GetAtt ''DbCluster'' ''Endpoint.Port'')]"
  by (simp add: DatabaseStack_example exampleStack_cluster_boundaries deref_dbSg
      deref_dbSg_fields defaultPort_def dbCluster_def)

section \<open>Rotation jobs\<close>

lemma credentials_differ: "dbAdminSecret \<noteq> dbRotationPasswordUserSecret"
  by (simp add: dbAdminSecret_def dbRotationPasswordUserSecret_def)

text \<open>
  C4. The Data Cluster Unit declares exactly two rotation jobs. The first is a multi-user
  rotation whose target credential is the administrative credential (the credential of
  the cluster) and whose master credential is the rotation-worker credential; the second
  is a single-user rotation whose target credential is the rotation-worker credential
  and which has no master credential. Both target the one relational cluster of the unit.
\<close>

theorem two_rotation_jobs:
  assumes "DatabaseStack fs id' props = Inr st"
  shows "\<exists>multi single cl.
           secretRotationsOf (children st) = [multi, single] \<and>
           databaseClustersOf (children st) = [cl] \<and>
           application multi = POSTGRES_ROTATION_MULTI_USER \<and>
           secret multi = dbAdminSecret \<and>
           credentials cl = fromSecret (secret multi) \<and>
           masterSecret multi = Some dbRotationPasswordUserSecret \<and>
           application single = POSTGRES_ROTATION_SINGLE_USER \<and>
           secret single = dbRotationPasswordUserSecret \<and>
           masterSecret single = None \<and>
           secret multi \<noteq> secret single \<and>
           target multi = cl \<and> target single = cl"
proof -
  let ?v = "propsVpc props"
  let ?cl = "resolveCluster (boundariesAfterRotations ?v) (dbCluster ?v)"
  have "secretRotationsOf (children st) =
      [(DbAdminSecretRotationMultiUser ?v)\<lparr>target := ?cl\<rparr>,
       (DbRotationPasswordUserSecretRotationSingleUser ?v)\<lparr>target := ?cl\<rparr>]"
    by (rule DatabaseStack_rotations [OF assms])
  moreover have "databaseClustersOf (children st) = [?cl]"
    by (rule DatabaseStack_clusters [OF assms])
  moreover have "credentials ?cl = fromSecret dbAdminSecret"
    by (simp add: resolved_cluster)
  ultimately show ?thesis
    using credentials_differ
    by (simp add: DbAdminSecretRotationMultiUser_def
        DbRotationPasswordUserSecretRotationSingleUser_def)
qed

theorem two_rotation_jobs_witness:
  "DatabaseStack exampleFs ''DatabaseStack'' exampleProps = Inr exampleStack \<and>
   (\<exists>multi single.
      secretRotationsOf (children exampleStack) = [multi, single] \<and>
      secret multi = dbAdminSecret \<and> secret single = dbRotationPasswordUserSecret \<and>
      target multi = target single)"
proof -
  note st = DatabaseStack_example
  from two_rotation_jobs [OF st] st show ?thesis by auto
qed

text \<open>
  C5. The rotation cadence configured on the multi-user rotation job equals the one
  configured on the single-user rotation job, and both are 3 days.
\<close>

theorem rotation_cadence_three_days:
  assumes "DatabaseStack fs id' props = Inr st"
    and "multi \<in> set (secretRotationsOf (children st))"
    and "single \<in> set (secretRotationsOf (children st))"
    and "application multi = POSTGRES_ROTATION_MULTI_USER"
    and "application single = POSTGRES_ROTATION_SINGLE_USER"
  shows "automaticallyAfter multi = automaticallyAfter single \<and>
         automaticallyAfter multi = Duration_days 3 \<and>
         automaticallyAfter single = Duration_days 3 \<and>
         toMilliseconds (automaticallyAfter multi) = 3 * 24 * 60 * 60 * 1000"
proof -
  have every: "automaticallyAfter job = Duration_days 3"
    if "job \<in> set (secretRotationsOf (children st))" for job
    using that DatabaseStack_rotations [OF assms(1)]
    by (auto simp add: DbAdminSecretRotationMultiUser_def
        DbRotationPasswordUserSecretRotationSingleUser_def)
  from every [OF assms(2)] every [OF assms(3)] show ?thesis
    by (simp add: toMilliseconds_def Duration_days_def)
qed

theorem rotation_cadence_three_days_witness:
  "DatabaseStack exampleFs ''DatabaseStack'' exampleProps = Inr exampleStack \<and>
   (\<exists>multi single.
      multi \<in> set (secretRotationsOf (children exampleStack)) \<and>
      single \<in> set (secretRotationsOf (children exampleStack)) \<and>
      application multi = POSTGRES_ROTATION_MULTI_USER \<and>
      application single = POSTGRES_ROTATION_SINGLE_USER \<and>
      toMilliseconds (automaticallyAfter multi) = 259200000 \<and>
      automaticallyAfter single = Duration_days 3)"
proof -
  note st = DatabaseStack_example
  obtain multi single where jobs: "secretRotationsOf (children exampleStack) = [multi, single]"
    and am: "application multi = POSTGRES_ROTATION_MULTI_USER"
    and as: "application single = POSTGRES_ROTATION_SINGLE_USER"
    using DatabaseStack_rotations [OF st]
    by (simp add: DbAdminSecretRotationMultiUser_def
        DbRotationPasswordUserSecretRotationSingleUser_def)
  have m: "multi \<in> set (secretRotationsOf (children exampleStack))"
    and s: "single \<in> set (secretRotationsOf (children exampleStack))"
    by (simp_all add: jobs)
  from rotation_cadence_three_days [OF st m s am as] m s am as st show ?thesis
    by auto
qed

text \<open>
  C7. Every subnet selected for the placement of either rotation job is of the
  outbound-only reachability class (\<open>PRIVATE_WITH_NAT\<close>): no rotation job is placed in
  a public or in a fully-isolated subnet.
\<close>

theorem rotation_jobs_outbound_only:
  assumes "DatabaseStack fs id' props = Inr st"
    and "job \<in> set (secretRotationsOf (children st))"
    and "s \<in> set (rotVpcSubnets job)"
  shows "tier s = PRIVATE_WITH_NAT \<and> tier s \<noteq> PUBLIC \<and> tier s \<noteq> PRIVATE_ISOLATED \<and>
         s \<in> set (subnets (propsVpc props))"
proof -
  from assms(2) DatabaseStack_rotations [OF assms(1)]
  have "rotVpcSubnets job = selectSubnets (propsVpc props)
      \<lparr>onePerAz = False, selSubnetType = PRIVATE_WITH_NAT\<rparr>"
    by (auto simp add: DbAdminSecretRotationMultiUser_def
        DbRotationPasswordUserSecretRotationSingleUser_def)
  with assms(3) have "s \<in> set (selectSubnets (propsVpc props)
      \<lparr>onePerAz = False, selSubnetType = PRIVATE_WITH_NAT\<rparr>)"
    by simp
  from selectSubnets_member [OF this] show ?thesis by simp
qed

lemma exampleVpc_outbound_only:
  "selectSubnets exampleVpc \<lparr>onePerAz = False, selSubnetType = PRIVATE_WITH_NAT\<rparr> =
     [exampleSubnet ''Private'' PRIVATE_WITH_NAT ''ap-northeast-1a'' 168427552,
      exampleSubnet ''Private'' PRIVATE_WITH_NAT ''ap-northeast-1c'' 168427568]"
  by (simp add: selectSubnets_def exampleVpc_def exampleSubnet_def)

theorem rotation_jobs_outbound_only_witness:
  "DatabaseStack exampleFs ''DatabaseStack'' exampleProps = Inr exampleStack \<and>
   (\<exists>job. job \<in> set (secretRotationsOf (children exampleStack)) \<and>
      exampleSubnet ''Private'' PRIVATE_WITH_NAT ''ap-northeast-1a'' 168427552
        \<in> set (rotVpcSubnets job)) \<and>
   tier (exampleSubnet ''Private'' PRIVATE_WITH_NAT ''ap-northeast-1a'' 168427552)
     = PRIVATE_WITH_NAT"
proof -
  note st = DatabaseStack_example
  obtain other job where jobs: "secretRotationsOf (children exampleStack) = [other, job]"
    and placed: "rotVpcSubnets job = selectSubnets exampleVpc
      \<lparr>onePerAz = False, selSubnetType = PRIVATE_WITH_NAT\<rparr>"
    using DatabaseStack_rotations [OF st]
    by (simp add: DbRotationPasswordUserSecretRotationSingleUser_def exampleProps_def)
  have job: "job \<in> set (secretRotationsOf (children exampleStack))"
    by (simp add: jobs)
  have s: "exampleSubnet ''Private'' PRIVATE_WITH_NAT ''ap-northeast-1a'' 168427552
       \<in> set (rotVpcSubnets job)"
    by (simp add: placed exampleVpc_outbound_only)
  from rotation_jobs_outbound_only [OF st job s] st job s show ?thesis by blast
qed

text \<open>
  C10. Each of the three security boundaries of the unit (client, rotation-worker,
  database) is created with all outbound traffic allowed; in particular the boundary
  attached to the relational cluster allows all outbound traffic, although every subnet
  of the cluster's subnet group is fully isolated.
\<close>

theorem boundaries_allow_all_outbound:
  assumes "DatabaseStack fs id' props = Inr st"
  shows "map sgNodeId (securityGroupsOf (children st)) =
           [''DbClientSg'', ''RotateSecretsLambdaFunctionSg'', ''DbSg''] \<and>
         list_all allowAllOutbound (securityGroupsOf (children st)) \<and>
         list_all (\<lambda>cl. list_all allowAllOutbound (securityGroups (instanceProps cl)) \<and>
                    securityGroups (instanceProps cl) \<noteq> [] \<and>
                    list_all (\<lambda>s. tier s = PRIVATE_ISOLATED) (sngVpcSubnets (subnetGroup cl)))
           (databaseClustersOf (children st))"
proof -
  let ?v = "propsVpc props"
  have isolated: "list_all (\<lambda>s. tier s = PRIVATE_ISOLATED)
      (selectSubnets ?v \<lparr>onePerAz = True, selSubnetType = PRIVATE_ISOLATED\<rparr>)"
    using selectSubnets_member [of _ ?v "\<lparr>onePerAz = True, selSubnetType = PRIVATE_ISOLATED\<rparr>"]
    by (simp add: list_all_iff)
  have out: "allowAllOutbound (dbClientSg ?v)" "allowAllOutbound (rotateSecretsLambdaFunctionSg ?v)"
    by (simp_all add: dbClientSg_def rotateSecretsLambdaFunctionSg_def)
  have ids: "sgNodeId (dbClientSg ?v) = ''DbClientSg''"
    "sgNodeId (rotateSecretsLambdaFunctionSg ?v) = ''RotateSecretsLambdaFunctionSg''"
    by (simp_all add: dbClientSg_def rotateSecretsLambdaFunctionSg_def)
  show ?thesis
    using out ids isolated
    by (simp add: DatabaseStack_securityGroups [OF assms] DatabaseStack_clusters [OF assms]
        resolved_cluster deref_dbSg_fields subnetGroup_decl_def)
qed

theorem boundaries_allow_all_outbound_witness:
  "DatabaseStack exampleFs ''DatabaseStack'' exampleProps = Inr exampleStack \<and>
   list_all allowAllOutbound (securityGroupsOf (children exampleStack)) \<and>
   length (securityGroupsOf (children exampleStack)) = 3"
proof -
  note st = DatabaseStack_example
  from boundaries_allow_all_outbound [OF st]
  have "length (map sgNodeId (securityGroupsOf (children exampleStack))) = 3"
    and "list_all allowAllOutbound (securityGroupsOf (children exampleStack))" by simp_all
  with st show ?thesis by simp
qed

section \<open>The administrative credential\<close>

lemma dbAdminSecret_generator:
  assumes "generateSecretString dbAdminSecret = Some g"
  shows "passwordLength g = Some 32" and "requireEachIncludedType g = Some True"
    and "excludedChars g = EXCLUDE_CHARACTERS"
    and "includedTypes g = [Lowercase, Uppercase, Numbers, Punctuation]"
  using assms
  by (auto simp add: dbAdminSecret_def excludedChars_def includedTypes_def flagOr_def)

text \<open>
  C3. The generation policy of the administrative credential has password length 32,
  requires every included character class (lowercase, uppercase, numbers, punctuation)
  and excludes exactly the six characters colon, at-sign, slash, double quote, space and
  single quote. Consequently every value generated under this policy has length 32,
  holds at least one character of each required class and holds no excluded character.
\<close>

theorem admin_credential_policy:
  assumes "generateSecretString dbAdminSecret = Some g"
    and "generatedUnder g v"
  shows "passwordLength g = Some 32 \<and>
         requireEachIncludedType g = Some True \<and>
         includedTypes g = [Lowercase, Uppercase, Numbers, Punctuation] \<and>
         set (excludedChars g) =
           {CHR '':'', CHR ''@'', CHR ''/'', CHR 0x22, CHR '' '', CHR 0x27} \<and>
         length v = 32 \<and>
         list_all (\<lambda>k. list_ex (\<lambda>c. c \<in> set (classChars k)) v)
           [Lowercase, Uppercase, Numbers, Punctuation] \<and>
         list_all (\<lambda>c. c \<notin> {CHR '':'', CHR ''@'', CHR ''/'', CHR 0x22, CHR '' '', CHR 0x27}) v"
proof -
  note policy = dbAdminSecret_generator [OF assms(1)]
  have excluded: "set (excludedChars g) =
      {CHR '':'', CHR ''@'', CHR ''/'', CHR 0x22, CHR '' '', CHR 0x27}"
    by (simp add: policy EXCLUDE_CHARACTERS_def)
  from assms(2) policy have len: "length v = 32"
    by (simp add: generatedUnder_def)
  from assms(2) have "list_all (\<lambda>k. list_ex (\<lambda>c. c \<in> set (classChars k)) v) (includedTypes g)"
    by (simp add: generatedUnder_def policy flagOr_def)
  then have classes: "list_all (\<lambda>k. list_ex (\<lambda>c. c \<in> set (classChars k)) v)
      [Lowercase, Uppercase, Numbers, Punctuation]"
    by (simp only: policy)
  from assms(2) have "list_all (allowedChar g) v"
    by (simp add: generatedUnder_def)
  then have "list_all (\<lambda>c. c \<notin> set (excludedChars g)) v"
    by (simp add: list_all_iff allowedChar_def)
  then have clean: "list_all
      (\<lambda>c. c \<notin> {CHR '':'', CHR ''@'', CHR ''/'', CHR 0x22, CHR '' '', CHR 0x27}) v"
    by (simp only: excluded)
  from policy excluded len classes clean show ?thesis by blast
qed

lemma examplePassword_generated:
  "generateSecretString dbAdminSecret = Some g \<Longrightarrow> generatedUnder g examplePassword"
  by (auto simp add: generatedUnder_def dbAdminSecret_def allowedChar_def includedTypes_def
      flagOr_def excludedChars_def EXCLUDE_CHARACTERS_def examplePassword_def)

theorem admin_credential_policy_witness:
  "\<exists>g. generateSecretString dbAdminSecret = Some g \<and>
       generatedUnder g examplePassword \<and>
       passwordLength g = Some 32 \<and>
       length examplePassword = 32"
proof -
  obtain g where g: "generateSecretString dbAdminSecret = Some g"
    by (simp add: dbAdminSecret_def)
  have v: "generatedUnder g examplePassword"
    by (rule examplePassword_generated [OF g])
  from admin_credential_policy [OF g v] g v show ?thesis by blast
qed

section \<open>The network of the sample configuration\<close>

lemma parseCidr_vpcProps:
  "parseCidr (cidr vpcProps) = Some \<lparr>minAddress = 168427520, mask = 24\<rparr>"
  by (simp add: vpcProps_def parseCidr_def ipToNum_def parseInt_def networkSize_def)

lemma Vpc_two_zones:
  "Vpc (z0 # z1 # zs) vpcProps =
     Inr \<lparr>vpcCidrBlock = \<lparr>minAddress = 168427520, mask = 24\<rparr>,
          dnsHostnames = True, dnsSupport = True, natGatewayCount = 1,
          availabilityZones = [z0, z1],
          subnets =
            [\<lparr>groupName = ''Public'', tier = PUBLIC, availabilityZone = z0,
              block = \<lparr>minAddress = 168427520, mask = 28\<rparr>\<rparr>,
             \<lparr>groupName = ''Public'', tier = PUBLIC, availabilityZone = z1,
              block = \<lparr>minAddress = 168427536, mask = 28\<rparr>\<rparr>,
             \<lparr>groupName = ''Private'', tier = PRIVATE_WITH_NAT, availabilityZone = z0,
              block = \<lparr>minAddress = 168427552, mask = 28\<rparr>\<rparr>,
             \<lparr>groupName = ''Private'', tier = PRIVATE_WITH_NAT, availabilityZone = z1,
              block = \<lparr>minAddress = 168427568, mask = 28\<rparr>\<rparr>,
             \<lparr>groupName = ''Isolate'', tier = PRIVATE_ISOLATED, availabilityZone = z0,
              block = \<lparr>minAddress = 168427584, mask = 28\<rparr>\<rparr>,
             \<lparr>groupName = ''Isolate'', tier = PRIVATE_ISOLATED, availabilityZone = z1,
              block = \<lparr>minAddress = 168427600, mask = 28\<rparr>\<rparr>]\<rparr>"
  unfolding Vpc_def parseCidr_vpcProps
  by (simp add: vpcProps_def addSubnet_def networkSize_def maxAddress_def)

lemma two_zones_cases:
  assumes "2 \<le> length (stackZones :: string list)"
  obtains z0 z1 zs where "stackZones = z0 # z1 # zs"
proof (cases stackZones)
  case Nil
  with assms show ?thesis by simp
next
  case outer: (Cons z0 rest)
  show ?thesis
  proof (cases rest)
    case Nil
    with outer assms show ?thesis by simp
  next
    case (Cons z1 zs)
    with outer that show ?thesis by simp
  qed
qed

text \<open>
  C8. With the configured zone count of 2 and the parent block 10.10.0.0/24, in a region
  that offers the two zones, the Network Topology Unit yields exactly 6 subnets: each of
  the three tiers (public, outbound-only, fully isolated) is replicated across the 2
  zones, every subnet has a /28 mask, and the six /28 blocks are pairwise disjoint and
  lie inside the /24 parent block.
\<close>

theorem network_six_subnets:
  assumes "2 \<le> length stackZones"
  shows "\<exists>vs. VpcStack stackZones id' props = Inr vs \<and>
           Some (vpcCidrBlock (vpc vs)) = parseCidr ''10.10.0.0/24'' \<and>
           mask (vpcCidrBlock (vpc vs)) = 24 \<and>
           availabilityZones (vpc vs) = take 2 stackZones \<and>
           length (subnets (vpc vs)) = 6 \<and>
           (\<forall>t. map availabilityZone (filter (\<lambda>s. tier s = t) (subnets (vpc vs)))
                  = take 2 stackZones) \<and>
           list_all (\<lambda>s. mask (block s) = 28 \<and> containsCidr (vpcCidrBlock (vpc vs)) (block s))
             (subnets (vpc vs)) \<and>
           pairwiseDisjoint (map block (subnets (vpc vs)))"
proof -
  from assms obtain z0 z1 zs where zones: "stackZones = z0 # z1 # zs"
    by (rule two_zones_cases)
  obtain v where v: "Vpc stackZones vpcProps = Inr v"
    and parentBlock: "vpcCidrBlock v = \<lparr>minAddress = 168427520, mask = 24\<rparr>"
    and az: "availabilityZones v = take 2 stackZones"
    and created: "subnets v =
      [\<lparr>groupName = ''Public'', tier = PUBLIC, availabilityZone = z0,
        block = \<lparr>minAddress = 168427520, mask = 28\<rparr>\<rparr>,
       \<lparr>groupName = ''Public'', tier = PUBLIC, availabilityZone = z1,
        block = \<lparr>minAddress = 168427536, mask = 28\<rparr>\<rparr>,
       \<lparr>groupName = ''Private'', tier = PRIVATE_WITH_NAT, availabilityZone = z0,
        block = \<lparr>minAddress = 168427552, mask = 28\<rparr>\<rparr>,
       \<lparr>groupName = ''Private'', tier = PRIVATE_WITH_NAT, availabilityZone = z1,
        block = \<lparr>minAddress = 168427568, mask = 28\<rparr>\<rparr>,
       \<lparr>groupName = ''Isolate'', tier = PRIVATE_ISOLATED, availabilityZone = z0,
        block = \<lparr>minAddress = 168427584, mask = 28\<rparr>\<rparr>,
       \<lparr>groupName = ''Isolate'', tier = PRIVATE_ISOLATED, availabilityZone = z1,
        block = \<lparr>minAddress = 168427600, mask = 28\<rparr>\<rparr>]"
    unfolding zones Vpc_two_zones by simp
  define vs where "vs =
      \<lparr>stackId = id',
       stackTerminationProtection =
         (case terminationProtection props of None \<Rightarrow> False | Some b \<Rightarrow> b),
       stackTags = [], vpc = v\<rparr>"
  have run: "VpcStack stackZones id' props = Inr vs"
    by (simp add: VpcStack_def v vs_def)
  have handle: "vpc vs = v"
    by (simp add: vs_def)
  have parent: "Some (vpcCidrBlock v) = parseCidr ''10.10.0.0/24''"
    using parseCidr_vpcProps by (simp add: parentBlock vpcProps_def)
  have m: "mask (vpcCidrBlock v) = 24"
    by (simp add: parentBlock)
  have six: "length (subnets v) = 6"
    by (simp add: created)
  have tiers: "map availabilityZone (filter (\<lambda>s. tier s = t) (subnets v)) = take 2 stackZones"
    for t
    by (cases t) (simp_all add: created zones)
  have masks: "list_all (\<lambda>s. mask (block s) = 28 \<and> containsCidr (vpcCidrBlock v) (block s))
      (subnets v)"
    by (simp add: created parentBlock containsCidr_def maxAddress_def networkSize_def)
  have disjoint: "pairwiseDisjoint (map block (subnets v))"
    by (simp add: created disjointCidr_def maxAddress_def networkSize_def)
  from run parent m az six tiers masks disjoint show ?thesis
    by (intro exI [of _ vs]) (simp add: handle)
qed

theorem network_six_subnets_witness:
  "2 \<le> length exampleZones \<and>
   (\<exists>vs. VpcStack exampleZones ''VpcStack'' \<lparr>terminationProtection = Some True\<rparr> = Inr vs \<and>
      length (subnets (vpc vs)) = 6 \<and>
      availabilityZones (vpc vs) = exampleZones)"
proof -
  have two: "2 \<le> length exampleZones"
    by (simp add: exampleZones_def)
  from network_six_subnets [OF two, of "''VpcStack''" "\<lparr>terminationProtection = Some True\<rparr>"]
  obtain vs where "VpcStack exampleZones ''VpcStack'' \<lparr>terminationProtection = Some True\<rparr> = Inr vs"
    and "length (subnets (vpc vs)) = 6"
    and "availabilityZones (vpc vs) = take 2 exampleZones"
    by blast
  with two show ?thesis by (auto simp add: exampleZones_def)
qed

section \<open>The composition entry point\<close>

lemma app_InrD:
  assumes "app fs stackZones = Inr a"
  obtains vs ds where
    "VpcStack stackZones ''VpcStack'' \<lparr>terminationProtection = Some True\<rparr> = Inr vs"
    and "DatabaseStack fs ''DatabaseStack''
           \<lparr>terminationProtection = Some True, propsVpc = vpc vs\<rparr> = Inr ds"
    and "a = \<lparr>vpcStack = Tags_add ''Environment'' ''Production'' vs,
              databaseStack = Tags_add ''Environment'' ''Production'' ds\<rparr>"
  using assms by (auto simp add: app_def split: sum.splits)

lemma VpcStack_protection:
  assumes "VpcStack stackZones id' props = Inr vs"
  shows "stackTerminationProtection vs = (terminationProtection props = Some True)"
  using assms by (auto simp add: VpcStack_def split: sum.splits option.splits)

lemma app_example: "\<exists>a. app exampleFs exampleZones = Inr a"
proof -
  obtain v where "Vpc exampleZones vpcProps = Inr v"
    unfolding exampleZones_def Vpc_two_zones by simp
  then obtain vs where
    "VpcStack exampleZones ''VpcStack'' \<lparr>terminationProtection = Some True\<rparr> = Inr vs"
    by (simp add: VpcStack_def)
  then show ?thesis
    by (simp add: app_def DatabaseStack_def readFileSync_def exampleFs_def Let_def)
qed

text \<open>
  C6. The deletion safeguard is enabled on all three protected declarations: the
  termination protection of the network unit and of the data cluster unit is on, and the
  deletion protection of the relational cluster is on.
\<close>

theorem deletion_safeguards_enabled:
  assumes "app fs stackZones = Inr a"
  shows "stackTerminationProtection (vpcStack a) \<and>
         stackTerminationProtection (databaseStack a) \<and>
         length (databaseClustersOf (children (databaseStack a))) = 1 \<and>
         list_all deletionProtection (databaseClustersOf (children (databaseStack a)))"
proof -
  from assms obtain vs ds where
    vs: "VpcStack stackZones ''VpcStack'' \<lparr>terminationProtection = Some True\<rparr> = Inr vs"
    and ds: "DatabaseStack fs ''DatabaseStack''
           \<lparr>terminationProtection = Some True, propsVpc = vpc vs\<rparr> = Inr ds"
    and a: "a = \<lparr>vpcStack = Tags_add ''Environment'' ''Production'' vs,
              databaseStack = Tags_add ''Environment'' ''Production'' ds\<rparr>"
    by (rule app_InrD)
  have network: "stackTerminationProtection (vpcStack a)"
    using VpcStack_protection [OF vs] by (simp add: a Tags_add_def)
  have cluster_unit: "stackTerminationProtection (databaseStack a)"
    using DatabaseStack_protection [OF ds] by (simp add: a Tags_add_def)
  have registered: "children (databaseStack a) = children ds"
    by (simp add: a Tags_add_def)
  have clusters: "databaseClustersOf (children ds) =
      [resolveCluster (boundariesAfterRotations (vpc vs)) (dbCluster (vpc vs))]"
    using DatabaseStack_clusters [OF ds] by simp
  have "deletionProtection (resolveCluster (boundariesAfterRotations (vpc vs)) (dbCluster (vpc vs)))"
    by (simp add: resolved_cluster)
  with network cluster_unit registered clusters show ?thesis by simp
qed

theorem deletion_safeguards_enabled_witness:
  "\<exists>a. app exampleFs exampleZones = Inr a \<and>
       stackTerminationProtection (vpcStack a) \<and>
       stackTerminationProtection (databaseStack a) \<and>
       list_all deletionProtection (databaseClustersOf (children (databaseStack a)))"
proof -
  obtain a where a: "app exampleFs exampleZones = Inr a"
    using app_example by blast
  from deletion_safeguards_enabled [OF a] a show ?thesis by blast
qed

end
